theory Spec2Isabelle
  imports Main
begin

section \<open>The invocation channel\<close>

text \<open>
  \<^verbatim>\<open>src/src/transactions.ts\<close> talks to the storage engine only through
  \<^verbatim>\<open>this._invoke(tag, payload)\<close>, an asynchronous call that resolves to a typed result
  or rejects. The types the layer never looks into are type variables: \<open>'a\<close> the
  arguments of \<^verbatim>\<open>open\<close>, \<open>'c\<close> the commit response, \<open>'v\<close> a JSON value, \<open>'w\<close> the
  state of whatever sits behind the channel. A rejection carries a \<open>failure\<close>.
\<close>

type_synonym failure = string

text \<open>
  Modelled from the spec: the enumeration \<^verbatim>\<open>RPC\<close> of \<^verbatim>\<open>repm-invoker.js\<close>, which is not
  part of the sources: the operation tags of the interface table, all of them used in
  \<^verbatim>\<open>transactions.ts\<close>.
\<close>

datatype rpc =
    OpenTransaction | OpenIndexTransaction
  | Get | Has | Scan | Put | Del
  | CreateIndex | DropIndex
  | CommitTransaction | CloseTransaction

text \<open>
  Modelled from the spec: the scan query (\<^verbatim>\<open>ScanOptions\<close> of \<^verbatim>\<open>scan-options.js\<close>, not
  part of the sources): an optional index name, an optional key prefix, an optional
  start key with its exclusivity, an optional limit.
\<close>

record scanOptions =
  indexName :: "string option"
  prefix :: "string option"
  start :: "(string \<times> bool) option"
  limit :: "int option"

text \<open>
  The payloads, as the object literals of \<^verbatim>\<open>transactions.ts\<close> build them: the
  arguments of \<^verbatim>\<open>open\<close>; the id alone; the id and a key; the id, a key and an
  encoded value; the id and scan options (the receiver is a function and is not
  recorded); the id, name, key prefix and JSON pointer of an index; the id and a name.
\<close>

datatype 'a payload =
    OpenArgs 'a
  | TxOnly int
  | TxKey int string
  | TxPut int string string
  | TxScan int scanOptions
  | TxCreateIndex int string string string
  | TxDropIndex int string

text \<open>
  Modelled from the spec: the key of a scanned entry (\<^verbatim>\<open>KeyTypeForScanOptions\<close> of
  \<^verbatim>\<open>scan-options.js\<close>, not part of the sources): a primary key, or for a scan over an
  index the pair of the secondary and the primary key.
\<close>

datatype key = Primary string | Indexed string string

text \<open>
  Modelled from the spec: the result of a get request (\<^verbatim>\<open>repm-invoker.js\<close>, not part of
  the sources): the presence flag and, optionally, the encoded value.
\<close>

record getResponse =
  gr_has :: bool
  gr_value :: "string option"

text \<open>
  Modelled from the spec: the type \<^verbatim>\<open>Invoke\<close> of \<^verbatim>\<open>repm-invoker.js\<close>, which is not part
  of the sources, with the result shapes of the interface table that \<^verbatim>\<open>transactions.ts\<close>
  reads (\<^verbatim>\<open>transactionId\<close>, \<^verbatim>\<open>has\<close>, \<^verbatim>\<open>value\<close>, \<^verbatim>\<open>ok\<close>). One handler per
  operation tag, each from the state behind the channel to a result (or a failure) and
  the next state. A scan delivers entries to the receiver and then completes or fails.
\<close>

record ('w, 'a, 'c, 'v) channel =
  on_open :: "rpc \<Rightarrow> 'a \<Rightarrow> 'w \<Rightarrow> (failure + int) \<times> 'w"
  on_get :: "int \<Rightarrow> string \<Rightarrow> 'w \<Rightarrow> (failure + getResponse) \<times> 'w"
  on_has :: "int \<Rightarrow> string \<Rightarrow> 'w \<Rightarrow> (failure + bool) \<times> 'w"
  on_scan :: "int \<Rightarrow> scanOptions \<Rightarrow> 'w \<Rightarrow> ((key \<times> 'v) list \<times> failure option) \<times> 'w"
  on_put :: "int \<Rightarrow> string \<Rightarrow> string \<Rightarrow> 'w \<Rightarrow> (failure + unit) \<times> 'w"
  on_del :: "int \<Rightarrow> string \<Rightarrow> 'w \<Rightarrow> (failure + bool) \<times> 'w"
  on_createIndex :: "int \<Rightarrow> string \<Rightarrow> string \<Rightarrow> string \<Rightarrow> 'w \<Rightarrow> (failure + unit) \<times> 'w"
  on_dropIndex :: "int \<Rightarrow> string \<Rightarrow> 'w \<Rightarrow> (failure + unit) \<times> 'w"
  on_commit :: "int \<Rightarrow> 'w \<Rightarrow> (failure + 'c) \<times> 'w"
  on_close :: "int \<Rightarrow> 'w \<Rightarrow> (failure + unit) \<times> 'w"

section \<open>The transaction object and its environment\<close>

text \<open>
  The first three fields are the fields of \<^verbatim>\<open>ReadTransactionImpl\<close>
  (\<^verbatim>\<open>_transactionId\<close>, \<^verbatim>\<open>_closed\<close>, \<^verbatim>\<open>_openTransactionName\<close>); the field
  \<^verbatim>\<open>_invoke\<close> is read-only and is the parameter \<open>chan\<close> of every operation below.
  The others are the environment: the state behind the channel, the history of the
  requests handed to the channel (each with the value \<^verbatim>\<open>_closed\<close> had at that moment)
  and what \<^verbatim>\<open>console.error\<close> has printed.
\<close>

record 'a sent =
  tag :: rpc
  payload :: "'a payload"
  closed_at_send :: bool

record ('w, 'a) state =
  transactionId :: int
  closed :: bool
  openTransactionName :: rpc
  world :: 'w
  requests :: "'a sent list"
  console :: "(string \<times> failure) list"

datatype error = TransactionClosed | ChannelFailure failure | DecodeFailure

text \<open>The constructors: \<^verbatim>\<open>_transactionId = -1\<close>, \<^verbatim>\<open>_closed = false\<close>.\<close>

definition ReadTransactionImpl :: "'w \<Rightarrow> ('w, 'a) state" where
  "ReadTransactionImpl w =
     \<lparr>transactionId = - 1, closed = False, openTransactionName = OpenTransaction,
      world = w, requests = [], console = []\<rparr>"

definition WriteTransactionImpl :: "'w \<Rightarrow> ('w, 'a) state" where
  "WriteTransactionImpl w = ReadTransactionImpl w"


text \<open>
  \<^verbatim>\<open>await this._invoke(tag, payload)\<close>: the request is recorded, the handler answers.
\<close>

definition invoke ::
  "rpc \<Rightarrow> 'a payload \<Rightarrow> ('w \<Rightarrow> (failure + 'r) \<times> 'w) \<Rightarrow> ('w, 'a) state
     \<Rightarrow> (failure + 'r) \<times> ('w, 'a) state" where
  "invoke t p handler s =
     (case handler (world s) of
        (r, w') \<Rightarrow>
          (r, s\<lparr>world := w',
                requests := requests s @ [\<lparr>tag = t, payload = p, closed_at_send = closed s\<rparr>]\<rparr>))"

text \<open>
  \<^verbatim>\<open>await this._invoke(RPC.Scan, {transactionId, opts, receiver})\<close>: the channel calls
  \<^verbatim>\<open>receiver\<close> once for every entry, in order; \<open>acc\<close> is the variable the receiver's
  closure updates, read after the call has resolved.
\<close>

definition invoke_scan ::
  "('w, 'a, 'c, 'v) channel \<Rightarrow> int \<Rightarrow> scanOptions \<Rightarrow> ('r \<Rightarrow> key \<times> 'v \<Rightarrow> 'r) \<Rightarrow> 'r
     \<Rightarrow> ('w, 'a) state \<Rightarrow> (failure + 'r) \<times> ('w, 'a) state" where
  "invoke_scan chan tid opts receiver acc s =
     (case on_scan chan tid opts (world s) of
        ((es, outcome), w') \<Rightarrow>
          ((case outcome of None \<Rightarrow> Inr (foldl receiver acc es) | Some f \<Rightarrow> Inl f),
           s\<lparr>world := w',
             requests := requests s @
               [\<lparr>tag = Scan, payload = TxScan tid opts, closed_at_send = closed s\<rparr>]\<rparr>))"

text \<open>
  Modelled from the spec: \<^verbatim>\<open>throwIfClosed\<close> of \<^verbatim>\<open>transaction-closed-error.js\<close>, which
  is not part of the sources. The guard contract of the specification: when the closed
  flag is true the operation fails with the transaction-closed error, otherwise nothing
  happens.
\<close>

definition throwIfClosed :: "('w, 'a) state \<Rightarrow> error + unit" where
  "throwIfClosed s = (if closed s then Inl TransactionClosed else Inr ())"

section \<open>ReadTransactionImpl\<close>

text \<open>
  \<^verbatim>\<open>JSON.parse\<close> and \<^verbatim>\<open>JSON.stringify\<close> belong to the JavaScript runtime and are
  parameters: \<open>JSON_parse\<close> returns \<open>None\<close> where \<^verbatim>\<open>JSON.parse\<close> throws. A missing
  \<^verbatim>\<open>value\<close> reaches \<^verbatim>\<open>JSON.parse\<close> as \<^verbatim>\<open>undefined\<close>, which it reads as the text
  \<^verbatim>\<open>undefined\<close>.
\<close>

definition get ::
  "(string \<Rightarrow> 'v option) \<Rightarrow> ('w, 'a, 'c, 'v) channel \<Rightarrow> string \<Rightarrow> ('w, 'a) state
     \<Rightarrow> (error + 'v option) \<times> ('w, 'a) state" where
  "get JSON_parse chan k s =
     (case throwIfClosed s of
        Inl e \<Rightarrow> (Inl e, s)
      | Inr _ \<Rightarrow>
          (case invoke Get (TxKey (transactionId s) k) (on_get chan (transactionId s) k) s of
             (Inl f, s') \<Rightarrow> (Inl (ChannelFailure f), s')
           | (Inr result, s') \<Rightarrow>
               if \<not> gr_has result then (Inr None, s')
               else
                 (case JSON_parse (case gr_value result of None \<Rightarrow> ''undefined'' | Some e \<Rightarrow> e) of
                    None \<Rightarrow> (Inl DecodeFailure, s')
                  | Some v \<Rightarrow> (Inr (Some v), s'))))"

definition has ::
  "('w, 'a, 'c, 'v) channel \<Rightarrow> string \<Rightarrow> ('w, 'a) state \<Rightarrow> (error + bool) \<times> ('w, 'a) state" where
  "has chan k s =
     (case throwIfClosed s of
        Inl e \<Rightarrow> (Inl e, s)
      | Inr _ \<Rightarrow>
          (case invoke Has (TxKey (transactionId s) k) (on_has chan (transactionId s) k) s of
             (Inl f, s') \<Rightarrow> (Inl (ChannelFailure f), s')
           | (Inr result, s') \<Rightarrow> (Inr result, s')))"

definition isEmpty ::
  "('w, 'a, 'c, 'v) channel \<Rightarrow> ('w, 'a) state \<Rightarrow> (error + bool) \<times> ('w, 'a) state" where
  "isEmpty chan s =
     (case throwIfClosed s of
        Inl e \<Rightarrow> (Inl e, s)
      | Inr _ \<Rightarrow>
          (case invoke_scan chan (transactionId s)
                  \<lparr>indexName = None, prefix = None, start = None, limit = Some 1\<rparr>
                  (\<lambda>empty' _. False) True s of
             (Inl f, s') \<Rightarrow> (Inl (ChannelFailure f), s')
           | (Inr empty', s') \<Rightarrow> (Inr empty', s')))"

text \<open>
  Modelled from the spec: the class \<^verbatim>\<open>ScanResult\<close> of \<^verbatim>\<open>scan-iterator.js\<close>, which is
  not part of the sources: a lazy sequence object parameterized by the options and bound
  to the transaction. Of the four arguments that \<^verbatim>\<open>scan\<close> passes to the constructor,
  the channel and \<^verbatim>\<open>() => this\<close> are the parameter \<open>chan\<close> and the state at the time
  the sequence is consumed; the options and the last argument are kept in the object.
\<close>

record scanResult =
  sr_options :: "scanOptions option"
  sr_shouldCloseTransaction :: bool

text \<open>
  Modelled from the spec: the constructor of \<^verbatim>\<open>ScanResult\<close> (\<^verbatim>\<open>scan-iterator.js\<close>,
  not part of the sources). It keeps its arguments and issues no request.
\<close>

definition ScanResult :: "scanOptions option \<Rightarrow> bool \<Rightarrow> scanResult" where
  "ScanResult opts shouldClose = \<lparr>sr_options = opts, sr_shouldCloseTransaction = shouldClose\<rparr>"

text \<open>
  \<^verbatim>\<open>scan\<close> of the source: no guard, one call of the constructor, the object is returned.
\<close>

definition scan ::
  "scanOptions option \<Rightarrow> ('w, 'a) state \<Rightarrow> (error + scanResult) \<times> ('w, 'a) state" where
  "scan opts s = (Inr (ScanResult opts False), s)"

text \<open>
  Modelled from the spec: the state of a view of a \<^verbatim>\<open>ScanResult\<close> that is being
  consumed (\<^verbatim>\<open>scan-iterator.js\<close>, not part of the sources): nothing requested yet, the
  delivered entries still to hand out, or the end.
\<close>

datatype 'v scanIterator = Pending scanResult | Yielding "(key \<times> 'v) list" | Exhausted

text \<open>
  Modelled from the spec: the options a view sends with its scan request
  (\<^verbatim>\<open>scan-options.js\<close> and \<^verbatim>\<open>scan-iterator.js\<close>, not part of the sources): the original
  options; when \<^verbatim>\<open>scan\<close> was called without options, nothing is constrained.
\<close>

definition toRPC :: "scanOptions option \<Rightarrow> scanOptions" where
  "toRPC opts =
     (case opts of
        None \<Rightarrow> \<lparr>indexName = None, prefix = None, start = None, limit = None\<rparr>
      | Some given \<Rightarrow> given)"

text \<open>
  Modelled from the spec: \<^verbatim>\<open>ScanResult.entries()\<close> (\<^verbatim>\<open>scan-iterator.js\<close>, not part of
  the sources). The view issues nothing until it is consumed.
\<close>

definition entries :: "scanResult \<Rightarrow> 'v scanIterator" where
  "entries sr = Pending sr"

text \<open>
  Modelled from the spec: one advancement of the entries view (\<^verbatim>\<open>scan-iterator.js\<close>,
  not part of the sources). Every advancement first checks the owning transaction and
  fails with the transaction-closed error when it is closed; the first one then sends a
  scan request with the original options and the transaction id, whose receiver collects
  the entries in the order of delivery; they are handed out one at a time. A failure of
  the channel propagates.
\<close>

definition next_entry ::
  "('w, 'a, 'c, 'v) channel \<Rightarrow> 'v scanIterator \<Rightarrow> ('w, 'a) state
     \<Rightarrow> (error + (key \<times> 'v) option) \<times> 'v scanIterator \<times> ('w, 'a) state" where
  "next_entry chan it s =
     (case it of
        Exhausted \<Rightarrow> (Inr None, Exhausted, s)
      | Yielding items \<Rightarrow>
          (case throwIfClosed s of
             Inl e \<Rightarrow> (Inl e, Exhausted, s)
           | Inr _ \<Rightarrow>
               (case items of
                  [] \<Rightarrow> (Inr None, Exhausted, s)
                | x # xs \<Rightarrow> (Inr (Some x), Yielding xs, s)))
      | Pending sr \<Rightarrow>
          (case throwIfClosed s of
             Inl e \<Rightarrow> (Inl e, Exhausted, s)
           | Inr _ \<Rightarrow>
               (case invoke_scan chan (transactionId s) (toRPC (sr_options sr))
                       (\<lambda>items e. items @ [e]) [] s of
                  (Inl f, s') \<Rightarrow> (Inl (ChannelFailure f), Exhausted, s')
                | (Inr items, s') \<Rightarrow>
                    (case items of
                       [] \<Rightarrow> (Inr None, Exhausted, s')
                     | x # xs \<Rightarrow> (Inr (Some x), Yielding xs, s')))))"

text \<open>
  The loop of \<^verbatim>\<open>scanAll\<close>: \<^verbatim>\<open>for await (const pair of it) result.push(pair)\<close>.
\<close>

function for_await_push ::
  "('w, 'a, 'c, 'v) channel \<Rightarrow> 'v scanIterator \<Rightarrow> (key \<times> 'v) list \<Rightarrow> ('w, 'a) state
     \<Rightarrow> (error + (key \<times> 'v) list) \<times> ('w, 'a) state" where
  "for_await_push chan it result s =
     (case next_entry chan it s of
        (Inl e, it', s') \<Rightarrow> (Inl e, s')
      | (Inr None, it', s') \<Rightarrow> (Inr result, s')
      | (Inr (Some pair), it', s') \<Rightarrow> for_await_push chan it' (result @ [pair]) s')"
  by pat_completeness auto
termination
  by (relation "measures
    [\<lambda>(chan, it, result, s). (case it of Pending _ \<Rightarrow> 1 | _ \<Rightarrow> 0),
     \<lambda>(chan, it, result, s). (case it of Yielding items \<Rightarrow> length items | _ \<Rightarrow> 0)]")
    (auto simp: next_entry_def throwIfClosed_def
          split: scanIterator.splits sum.splits list.splits prod.splits if_splits)

definition scanAll ::
  "('w, 'a, 'c, 'v) channel \<Rightarrow> scanOptions option \<Rightarrow> ('w, 'a) state
     \<Rightarrow> (error + (key \<times> 'v) list) \<times> ('w, 'a) state" where
  "scanAll chan opts s =
     (case scan opts s of
        (Inl e, s') \<Rightarrow> (Inl e, s')
      | (Inr sr, s') \<Rightarrow> for_await_push chan (entries sr) [] s')"

text \<open>\<^verbatim>\<open>open\<close> stores the id the engine returns; a failure of the channel propagates.\<close>

definition open_tx ::
  "('w, 'a, 'c, 'v) channel \<Rightarrow> 'a \<Rightarrow> ('w, 'a) state \<Rightarrow> (error + unit) \<times> ('w, 'a) state" where
  "open_tx chan args s =
     (case invoke (openTransactionName s) (OpenArgs args)
             (on_open chan (openTransactionName s) args) s of
        (Inl f, s') \<Rightarrow> (Inl (ChannelFailure f), s')
      | (Inr tid, s') \<Rightarrow> (Inr (), s'\<lparr>transactionId := tid\<rparr>))"

text \<open>
  \<^verbatim>\<open>close\<close>: the assignment and the call stand in a \<^verbatim>\<open>try\<close> whose \<^verbatim>\<open>catch\<close> prints
  with \<^verbatim>\<open>console.error\<close>.
\<close>

definition close ::
  "('w, 'a, 'c, 'v) channel \<Rightarrow> ('w, 'a) state \<Rightarrow> (error + unit) \<times> ('w, 'a) state" where
  "close chan s =
     (let s1 = s\<lparr>closed := True\<rparr> in
      case invoke CloseTransaction (TxOnly (transactionId s1)) (on_close chan (transactionId s1)) s1 of
        (Inl ex, s2) \<Rightarrow>
          (Inr (), s2\<lparr>console := console s2 @ [(''Failed to close transaction'', ex)]\<rparr>)
      | (Inr _, s2) \<Rightarrow> (Inr (), s2))"

section \<open>WriteTransactionImpl\<close>

definition put ::
  "('v \<Rightarrow> string) \<Rightarrow> ('w, 'a, 'c, 'v) channel \<Rightarrow> string \<Rightarrow> 'v \<Rightarrow> ('w, 'a) state
     \<Rightarrow> (error + unit) \<times> ('w, 'a) state" where
  "put JSON_stringify chan k v s =
     (case throwIfClosed s of
        Inl e \<Rightarrow> (Inl e, s)
      | Inr _ \<Rightarrow>
          (case invoke Put (TxPut (transactionId s) k (JSON_stringify v))
                  (on_put chan (transactionId s) k (JSON_stringify v)) s of
             (Inl f, s') \<Rightarrow> (Inl (ChannelFailure f), s')
           | (Inr _, s') \<Rightarrow> (Inr (), s')))"

definition del ::
  "('w, 'a, 'c, 'v) channel \<Rightarrow> string \<Rightarrow> ('w, 'a) state \<Rightarrow> (error + bool) \<times> ('w, 'a) state" where
  "del chan k s =
     (case throwIfClosed s of
        Inl e \<Rightarrow> (Inl e, s)
      | Inr _ \<Rightarrow>
          (case invoke Del (TxKey (transactionId s) k) (on_del chan (transactionId s) k) s of
             (Inl f, s') \<Rightarrow> (Inl (ChannelFailure f), s')
           | (Inr ok, s') \<Rightarrow> (Inr ok, s')))"

definition WriteTransactionImpl_commit ::
  "('w, 'a, 'c, 'v) channel \<Rightarrow> ('w, 'a) state \<Rightarrow> (error + 'c) \<times> ('w, 'a) state" where
  "WriteTransactionImpl_commit chan s =
     (let s1 = s\<lparr>closed := True\<rparr> in
      case invoke CommitTransaction (TxOnly (transactionId s1))
             (on_commit chan (transactionId s1)) s1 of
        (Inl f, s2) \<Rightarrow> (Inl (ChannelFailure f), s2)
      | (Inr response, s2) \<Rightarrow> (Inr response, s2))"

section \<open>IndexTransactionImpl\<close>

record createIndexDefinition =
  name :: string
  keyPrefix :: "string option"
  jsonPointer :: string

text \<open>\<^verbatim>\<open>options.keyPrefix || ''\<close>: a missing prefix and an empty one both give \<^verbatim>\<open>''\<close>.\<close>

definition createIndex ::
  "('w, 'a, 'c, 'v) channel \<Rightarrow> createIndexDefinition \<Rightarrow> ('w, 'a) state
     \<Rightarrow> (error + unit) \<times> ('w, 'a) state" where
  "createIndex chan def s =
     (case throwIfClosed s of
        Inl e \<Rightarrow> (Inl e, s)
      | Inr _ \<Rightarrow>
          (let kp = (case keyPrefix def of None \<Rightarrow> [] | Some p \<Rightarrow> if p = [] then [] else p) in
           case invoke CreateIndex (TxCreateIndex (transactionId s) (name def) kp (jsonPointer def))
                  (on_createIndex chan (transactionId s) (name def) kp (jsonPointer def)) s of
             (Inl f, s') \<Rightarrow> (Inl (ChannelFailure f), s')
           | (Inr _, s') \<Rightarrow> (Inr (), s')))"

definition dropIndex ::
  "('w, 'a, 'c, 'v) channel \<Rightarrow> string \<Rightarrow> ('w, 'a) state \<Rightarrow> (error + unit) \<times> ('w, 'a) state" where
  "dropIndex chan n s =
     (case throwIfClosed s of
        Inl e \<Rightarrow> (Inl e, s)
      | Inr _ \<Rightarrow>
          (case invoke DropIndex (TxDropIndex (transactionId s) n)
                  (on_dropIndex chan (transactionId s) n) s of
             (Inl f, s') \<Rightarrow> (Inl (ChannelFailure f), s')
           | (Inr _, s') \<Rightarrow> (Inr (), s')))"

definition IndexTransactionImpl_commit ::
  "('w, 'a, 'c, 'v) channel \<Rightarrow> ('w, 'a) state \<Rightarrow> (error + 'c) \<times> ('w, 'a) state" where
  "IndexTransactionImpl_commit chan s =
     (let s1 = s\<lparr>closed := True\<rparr> in
      case invoke CommitTransaction (TxOnly (transactionId s1))
             (on_commit chan (transactionId s1)) s1 of
        (Inl f, s2) \<Rightarrow> (Inl (ChannelFailure f), s2)
      | (Inr response, s2) \<Rightarrow> (Inr response, s2))"

section \<open>Draining a scan, in the words of the specification\<close>

text \<open>
  The specification describes \<^verbatim>\<open>scanAll\<close> as scan-then-drain: the entries view of
  \<^verbatim>\<open>scan(options)\<close> is consumed to its end and the pairs are listed in the order in
  which the view hands them out. \<open>drain\<close> says this directly, without the accumulator
  of the loop in the source.
\<close>

function drain ::
  "('w, 'a, 'c, 'v) channel \<Rightarrow> 'v scanIterator \<Rightarrow> ('w, 'a) state
     \<Rightarrow> (error + (key \<times> 'v) list) \<times> ('w, 'a) state" where
  "drain chan it s =
     (case next_entry chan it s of
        (Inl e, it', s') \<Rightarrow> (Inl e, s')
      | (Inr None, it', s') \<Rightarrow> (Inr [], s')
      | (Inr (Some pair), it', s') \<Rightarrow>
          (case drain chan it' s' of
             (Inl e, s'') \<Rightarrow> (Inl e, s'')
           | (Inr pairs, s'') \<Rightarrow> (Inr (pair # pairs), s'')))"
  by pat_completeness auto
termination
  by (relation "measures
    [\<lambda>(chan, it, s). (case it of Pending _ \<Rightarrow> 1 | _ \<Rightarrow> 0),
     \<lambda>(chan, it, s). (case it of Yielding items \<Rightarrow> length items | _ \<Rightarrow> 0)]")
    (auto simp: next_entry_def throwIfClosed_def
          split: scanIterator.splits sum.splits list.splits prod.splits if_splits)

definition scanAll_spec ::
  "('w, 'a, 'c, 'v) channel \<Rightarrow> scanOptions option \<Rightarrow> ('w, 'a) state
     \<Rightarrow> (error + (key \<times> 'v) list) \<times> ('w, 'a) state" where
  "scanAll_spec chan opts s =
     (case scan opts s of
        (Inl e, s') \<Rightarrow> (Inl e, s')
      | (Inr sr, s') \<Rightarrow> drain chan (entries sr) s')"

section \<open>Sequences of operations\<close>

text \<open>
  A caller is a list of operations on one transaction object. \<open>exec\<close> runs one of them
  and keeps whether it failed; \<open>run\<close> runs a list, whatever the single outcomes are.
\<close>

datatype ('a, 'v) operation =
    OpGet string
  | OpHas string
  | OpIsEmpty
  | OpScan "scanOptions option"
  | OpScanAll "scanOptions option"
  | OpOpen 'a
  | OpClose
  | OpPut string 'v
  | OpDel string
  | OpCommit
  | OpCreateIndex createIndexDefinition
  | OpDropIndex string
  | OpIndexCommit

definition outcome :: "(error + 'r) \<times> 's \<Rightarrow> error option \<times> 's" where
  "outcome rs = (case rs of (Inl e, s) \<Rightarrow> (Some e, s) | (Inr _, s) \<Rightarrow> (None, s))"

fun exec ::
  "(string \<Rightarrow> 'v option) \<Rightarrow> ('v \<Rightarrow> string) \<Rightarrow> ('w, 'a, 'c, 'v) channel \<Rightarrow> ('a, 'v) operation
     \<Rightarrow> ('w, 'a) state \<Rightarrow> error option \<times> ('w, 'a) state" where
  "exec JSON_parse JSON_stringify chan (OpGet k) s = outcome (get JSON_parse chan k s)"
| "exec JSON_parse JSON_stringify chan (OpHas k) s = outcome (has chan k s)"
| "exec JSON_parse JSON_stringify chan OpIsEmpty s = outcome (isEmpty chan s)"
| "exec JSON_parse JSON_stringify chan (OpScan opts) s = outcome (scan opts s)"
| "exec JSON_parse JSON_stringify chan (OpScanAll opts) s = outcome (scanAll chan opts s)"
| "exec JSON_parse JSON_stringify chan (OpOpen args) s = outcome (open_tx chan args s)"
| "exec JSON_parse JSON_stringify chan OpClose s = outcome (close chan s)"
| "exec JSON_parse JSON_stringify chan (OpPut k v) s = outcome (put JSON_stringify chan k v s)"
| "exec JSON_parse JSON_stringify chan (OpDel k) s = outcome (del chan k s)"
| "exec JSON_parse JSON_stringify chan OpCommit s = outcome (WriteTransactionImpl_commit chan s)"
| "exec JSON_parse JSON_stringify chan (OpCreateIndex d) s = outcome (createIndex chan d s)"
| "exec JSON_parse JSON_stringify chan (OpDropIndex n) s = outcome (dropIndex chan n s)"
| "exec JSON_parse JSON_stringify chan OpIndexCommit s = outcome (IndexTransactionImpl_commit chan s)"

fun run ::
  "(string \<Rightarrow> 'v option) \<Rightarrow> ('v \<Rightarrow> string) \<Rightarrow> ('w, 'a, 'c, 'v) channel \<Rightarrow> ('a, 'v) operation list
     \<Rightarrow> ('w, 'a) state \<Rightarrow> ('w, 'a) state" where
  "run JSON_parse JSON_stringify chan [] s = s"
| "run JSON_parse JSON_stringify chan (op # ops) s =
     run JSON_parse JSON_stringify chan ops (snd (exec JSON_parse JSON_stringify chan op s))"

text \<open>
  The operations of the life cycle (\<^verbatim>\<open>open\<close>, \<^verbatim>\<open>close\<close> and the two \<^verbatim>\<open>commit\<close>),
  which do not call \<^verbatim>\<open>throwIfClosed\<close>, and the operations that only build a lazy
  sequence.
\<close>

fun is_lifecycle :: "('a, 'v) operation \<Rightarrow> bool" where
  "is_lifecycle (OpOpen _) = True"
| "is_lifecycle OpClose = True"
| "is_lifecycle OpCommit = True"
| "is_lifecycle OpIndexCommit = True"
| "is_lifecycle _ = False"


fun is_scan :: "('a, 'v) operation \<Rightarrow> bool" where
  "is_scan (OpScan _) = True"
| "is_scan _ = False"

section \<open>Engines for concrete evaluations\<close>

text \<open>
  Two channels on which the operations can be run: an engine that keeps the encoded
  values in a list and numbers the transactions it opens, and a channel on which every
  call fails. The JSON texts of the two truth values serve as a concrete instance of
  \<^verbatim>\<open>JSON.stringify\<close> and \<^verbatim>\<open>JSON.parse\<close>.
\<close>

definition bool_stringify :: "bool \<Rightarrow> string" where
  "bool_stringify b = (if b then ''true'' else ''false'')"

definition bool_parse :: "string \<Rightarrow> bool option" where
  "bool_parse e =
     (if e = ''true'' then Some True else if e = ''false'' then Some False else None)"

record engine =
  next_id :: int
  store :: "(string \<times> string) list"

definition memory_engine :: "(string \<Rightarrow> 'v option) \<Rightarrow> (engine, 'a, nat, 'v) channel" where
  "memory_engine decode =
     \<lparr>on_open = (\<lambda>t args w. (Inr (next_id w), w\<lparr>next_id := next_id w + 1\<rparr>)),
      on_get = (\<lambda>tid k w.
         (Inr \<lparr>gr_has = (map_of (store w) k \<noteq> None), gr_value = map_of (store w) k\<rparr>, w)),
      on_has = (\<lambda>tid k w. (Inr (map_of (store w) k \<noteq> None), w)),
      on_scan = (\<lambda>tid opts w.
         (((case limit opts of None \<Rightarrow> (\<lambda>es. es) | Some n \<Rightarrow> take (nat n))
             (List.map_filter (\<lambda>(k, e). map_option (Pair (Primary k)) (decode e)) (store w)),
           None), w)),
      on_put = (\<lambda>tid k e w.
         (Inr (), w\<lparr>store := filter (\<lambda>(k', _). k' \<noteq> k) (store w) @ [(k, e)]\<rparr>)),
      on_del = (\<lambda>tid k w.
         (Inr (map_of (store w) k \<noteq> None), w\<lparr>store := filter (\<lambda>(k', _). k' \<noteq> k) (store w)\<rparr>)),
      on_createIndex = (\<lambda>tid n kp jp w. (Inr (), w)),
      on_dropIndex = (\<lambda>tid n w. (Inr (), w)),
      on_commit = (\<lambda>tid w. (Inr (length (store w)), w)),
      on_close = (\<lambda>tid w. (Inr (), w))\<rparr>"

definition failing_engine :: "(unit, 'a, 'c, 'v) channel" where
  "failing_engine =
     \<lparr>on_open = (\<lambda>t args w. (Inl ''offline'', w)),
      on_get = (\<lambda>tid k w. (Inl ''offline'', w)),
      on_has = (\<lambda>tid k w. (Inl ''offline'', w)),
      on_scan = (\<lambda>tid opts w. (([], Some ''offline''), w)),
      on_put = (\<lambda>tid k e w. (Inl ''offline'', w)),
      on_del = (\<lambda>tid k w. (Inl ''offline'', w)),
      on_createIndex = (\<lambda>tid n kp jp w. (Inl ''offline'', w)),
      on_dropIndex = (\<lambda>tid n w. (Inl ''offline'', w)),
      on_commit = (\<lambda>tid w. (Inl ''offline'', w)),
      on_close = (\<lambda>tid w. (Inl ''offline'', w))\<rparr>"

definition fresh_engine :: engine where
  "fresh_engine = \<lparr>next_id = 1, store = []\<rparr>"

text \<open>
  A write transaction on the fresh engine after \<^verbatim>\<open>open\<close>; the same after \<^verbatim>\<open>close\<close>;
  and open transactions over a store with three entries and over a store with a value
  that is not JSON.
\<close>

definition sample_open :: "(engine, unit) state" where
  "sample_open = snd (open_tx (memory_engine bool_parse) () (WriteTransactionImpl fresh_engine))"

definition sample_closed :: "(engine, unit) state" where
  "sample_closed = snd (close (memory_engine bool_parse) sample_open)"

definition sample_stored :: "(engine, unit) state" where
  "sample_stored =
     sample_open\<lparr>world :=
       \<lparr>next_id = 2, store = [(''a'', ''true''), (''b'', ''false''), (''c'', ''true'')]\<rparr>\<rparr>"

definition sample_malformed :: "(engine, unit) state" where
  "sample_malformed = sample_open\<lparr>world := \<lparr>next_id = 2, store = [(''m'', ''{'')]\<rparr>\<rparr>"

section \<open>A model of the JSON text encoding\<close>

text \<open>
  Modelled from the spec: the type \<^verbatim>\<open>JSONValue\<close> of \<^verbatim>\<open>json.js\<close>, which is not part
  of the sources: null, a truth value, a number, a string, an array of values, an object.
  A number is an integer here, since a number with a fraction is a floating-point
  value; a string is the list of the bytes of its UTF-8 form; an object is the list of
  its members in the order in which they are enumerated.
\<close>

datatype json =
    JNull
  | JBool bool
  | JNumber int
  | JString string
  | JArray "json list"
  | JObject "(string \<times> json) list"

text \<open>
  The characters the encoding tells apart: decimal digits and insignificant white space
  (space, tab, line feed, carriage return).
\<close>

definition is_digit :: "char \<Rightarrow> bool" where
  "is_digit c = (48 \<le> (of_char c :: nat) \<and> (of_char c :: nat) \<le> 57)"

definition is_ws :: "char \<Rightarrow> bool" where
  "is_ws c = (c = CHR 0x20 \<or> c = CHR 0x09 \<or> c = CHR 0x0A \<or> c = CHR 0x0D)"

definition skip_ws :: "string \<Rightarrow> string" where
  "skip_ws s = dropWhile is_ws s"

text \<open>
  Modelled from the spec: the value encoding, for which the source calls the runtime's
  \<^verbatim>\<open>JSON.stringify\<close>. The text has no white space. An integer is written in decimal
  digits with a minus sign when negative. In a string the quotation mark, the backslash
  and the control characters are escaped, the latter by their short form or by
  \<^verbatim>\<open>\u00XX\<close> with lower-case digits. The elements of an array and the members of an
  object are separated by commas, in their order.
\<close>

fun digits :: "nat \<Rightarrow> string" where
  "digits n = (if n < 10 then [char_of (48 + n)] else digits (n div 10) @ [char_of (48 + n mod 10)])"

definition int_text :: "int \<Rightarrow> string" where
  "int_text i = (if i < 0 then CHR ''-'' # digits (nat (- i)) else digits (nat i))"

definition hex_digit :: "nat \<Rightarrow> char" where
  "hex_digit d = (if d < 10 then char_of (48 + d) else char_of (87 + d))"

definition escape_char :: "char \<Rightarrow> string" where
  "escape_char c =
     (if c = CHR 0x22 then [CHR 0x5C, CHR 0x22]
      else if c = CHR 0x5C then [CHR 0x5C, CHR 0x5C]
      else if c = CHR 0x08 then [CHR 0x5C, CHR ''b'']
      else if c = CHR 0x0C then [CHR 0x5C, CHR ''f'']
      else if c = CHR 0x0A then [CHR 0x5C, CHR ''n'']
      else if c = CHR 0x0D then [CHR 0x5C, CHR ''r'']
      else if c = CHR 0x09 then [CHR 0x5C, CHR ''t'']
      else if (of_char c :: nat) < 32 then
        [CHR 0x5C, CHR ''u'', CHR ''0'', CHR ''0'',
         hex_digit (of_char c div 16), hex_digit (of_char c mod 16)]
      else [c])"

definition quote :: "string \<Rightarrow> string" where
  "quote s = CHR 0x22 # concat (map escape_char s) @ [CHR 0x22]"

fun join :: "string list \<Rightarrow> string" where
  "join [] = []"
| "join [t] = t"
| "join (t # u # us) = t @ CHR '','' # join (u # us)"

fun json_stringify :: "json \<Rightarrow> string" where
  "json_stringify JNull = ''null''"
| "json_stringify (JBool b) = (if b then ''true'' else ''false'')"
| "json_stringify (JNumber i) = int_text i"
| "json_stringify (JString s) = quote s"
| "json_stringify (JArray vs) = CHR ''['' # join (map json_stringify vs) @ '']''"
| "json_stringify (JObject ms) =
     CHR ''{'' # join (map (\<lambda>(k, v). quote k @ CHR '':'' # json_stringify v) ms) @ ''}''"

text \<open>
  Modelled from the spec: the decoding, for which the source calls the runtime's
  \<^verbatim>\<open>JSON.parse\<close>; \<open>None\<close> stands for the syntax error it throws. A number is
  an optional minus sign and decimal digits without a leading zero. A text with a
  fraction or an exponent denotes a floating-point number and is outside this model:
  it gives \<open>None\<close>.
\<close>

definition digits_val :: "string \<Rightarrow> nat" where
  "digits_val ds = foldl (\<lambda>a c. 10 * a + (of_char c - 48)) 0 ds"

definition parse_nat :: "string \<Rightarrow> (nat \<times> string) option" where
  "parse_nat s =
     (let ds = takeWhile is_digit s in
      if ds = [] then None
      else if 1 < length ds \<and> hd ds = CHR ''0'' then None
      else Some (digits_val ds, dropWhile is_digit s))"

definition parse_int :: "string \<Rightarrow> (int \<times> string) option" where
  "parse_int s =
     (case s of
        [] \<Rightarrow> None
      | c # t \<Rightarrow>
          if c = CHR ''-'' then map_option (\<lambda>(n, r). (- int n, r)) (parse_nat t)
          else map_option (\<lambda>(n, r). (int n, r)) (parse_nat s))"

text \<open>
  The escapes of a string: the two-character ones, and \<^verbatim>\<open>\uXXXX\<close>, whose code point
  is written as UTF-8 bytes. The escape of a surrogate is outside this model. A control
  character that is not escaped is a syntax error.
\<close>

definition hex_val :: "char \<Rightarrow> nat option" where
  "hex_val c =
     (let n = (of_char c :: nat) in
      if 48 \<le> n \<and> n \<le> 57 then Some (n - 48)
      else if 97 \<le> n \<and> n \<le> 102 then Some (n - 87)
      else if 65 \<le> n \<and> n \<le> 70 then Some (n - 55)
      else None)"

definition hex4 :: "char \<Rightarrow> char \<Rightarrow> char \<Rightarrow> char \<Rightarrow> nat option" where
  "hex4 a b c d =
     (case (hex_val a, hex_val b, hex_val c, hex_val d) of
        (Some x3, Some x2, Some x1, Some x0) \<Rightarrow> Some (((x3 * 16 + x2) * 16 + x1) * 16 + x0)
      | _ \<Rightarrow> None)"

definition utf8 :: "nat \<Rightarrow> string option" where
  "utf8 cp =
     (if cp < 128 then Some [char_of cp]
      else if cp < 2048 then Some [char_of (192 + cp div 64), char_of (128 + cp mod 64)]
      else if 55296 \<le> cp \<and> cp < 57344 then None
      else Some [char_of (224 + cp div 4096), char_of (128 + (cp div 64) mod 64),
                 char_of (128 + cp mod 64)])"

definition unescape :: "char \<Rightarrow> char option" where
  "unescape e =
     (if e = CHR 0x22 then Some (CHR 0x22)
      else if e = CHR 0x5C then Some (CHR 0x5C)
      else if e = CHR ''/'' then Some (CHR ''/'')
      else if e = CHR ''b'' then Some (CHR 0x08)
      else if e = CHR ''f'' then Some (CHR 0x0C)
      else if e = CHR ''n'' then Some (CHR 0x0A)
      else if e = CHR ''r'' then Some (CHR 0x0D)
      else if e = CHR ''t'' then Some (CHR 0x09)
      else None)"

fun parse_string :: "string \<Rightarrow> (string \<times> string) option" where
  "parse_string [] = None"
| "parse_string (c # t) =
     (if c = CHR 0x22 then Some ([], t)
      else if c = CHR 0x5C then
        (case t of
           [] \<Rightarrow> None
         | e # t' \<Rightarrow>
             if e = CHR ''u'' then
               (case t' of
                  h3 # h2 # h1 # h0 # t'' \<Rightarrow>
                    (case hex4 h3 h2 h1 h0 of
                       None \<Rightarrow> None
                     | Some cp \<Rightarrow>
                         (case utf8 cp of
                            None \<Rightarrow> None
                          | Some bs \<Rightarrow> map_option (\<lambda>(str, r). (bs @ str, r)) (parse_string t'')))
                | _ \<Rightarrow> None)
             else
               (case unescape e of
                  None \<Rightarrow> None
                | Some ch \<Rightarrow> map_option (\<lambda>(str, r). (ch # str, r)) (parse_string t')))
      else if (of_char c :: nat) < 32 then None
      else map_option (\<lambda>(str, r). (c # str, r)) (parse_string t))"

text \<open>
  The literals \<^verbatim>\<open>null\<close>, \<^verbatim>\<open>true\<close> and \<^verbatim>\<open>false\<close>.
\<close>

definition keyword :: "string \<Rightarrow> json \<Rightarrow> string \<Rightarrow> (json \<times> string) option" where
  "keyword w v s = (if take (length w) s = w then Some (v, drop (length w) s) else None)"

text \<open>
  Defining a member of an object that is being built: a key that is already there keeps
  its place and gets the new value, a new key goes to the end.
\<close>

definition set_member :: "(string \<times> json) list \<Rightarrow> string \<times> json \<Rightarrow> (string \<times> json) list" where
  "set_member ms m =
     (if fst m \<in> set (map fst ms)
      then map (\<lambda>m'. if fst m' = fst m then m else m') ms
      else ms @ [m])"

text \<open>
  A value, the elements of an array after the opening bracket, the members of an object
  after the opening brace. White space is skipped before every token. The first
  argument bounds the number of nested calls.
\<close>

fun parse_value :: "nat \<Rightarrow> string \<Rightarrow> (json \<times> string) option"
  and parse_elements :: "nat \<Rightarrow> string \<Rightarrow> (json list \<times> string) option"
  and parse_members :: "nat \<Rightarrow> string \<Rightarrow> ((string \<times> json) list \<times> string) option" where
  "parse_value 0 s = None"
| "parse_value (Suc n) s =
     (case skip_ws s of
        [] \<Rightarrow> None
      | c # t \<Rightarrow>
          if c = CHR ''n'' then keyword ''null'' JNull (c # t)
          else if c = CHR ''t'' then keyword ''true'' (JBool True) (c # t)
          else if c = CHR ''f'' then keyword ''false'' (JBool False) (c # t)
          else if c = CHR 0x22 then map_option (\<lambda>(str, r). (JString str, r)) (parse_string t)
          else if c = CHR ''['' then
            (case skip_ws t of
               [] \<Rightarrow> None
             | d # r \<Rightarrow>
                 if d = CHR '']'' then Some (JArray [], r)
                 else map_option (\<lambda>(vs, r'). (JArray vs, r')) (parse_elements n t))
          else if c = CHR ''{'' then
            (case skip_ws t of
               [] \<Rightarrow> None
             | d # r \<Rightarrow>
                 if d = CHR ''}'' then Some (JObject [], r)
                 else map_option (\<lambda>(ms, r'). (JObject (foldl set_member [] ms), r'))
                        (parse_members n t))
          else map_option (\<lambda>(i, r). (JNumber i, r)) (parse_int (c # t)))"
| "parse_elements 0 s = None"
| "parse_elements (Suc n) s =
     (case parse_value n s of
        None \<Rightarrow> None
      | Some (v, r) \<Rightarrow>
          (case skip_ws r of
             [] \<Rightarrow> None
           | d # r' \<Rightarrow>
               if d = CHR '','' then
                 map_option (\<lambda>(vs, r''). (v # vs, r'')) (parse_elements n r')
               else if d = CHR '']'' then Some ([v], r')
               else None))"
| "parse_members 0 s = None"
| "parse_members (Suc n) s =
     (case skip_ws s of
        [] \<Rightarrow> None
      | q # t \<Rightarrow>
          if q \<noteq> CHR 0x22 then None
          else
            (case parse_string t of
               None \<Rightarrow> None
             | Some (k, r) \<Rightarrow>
                 (case skip_ws r of
                    [] \<Rightarrow> None
                  | colon # r1 \<Rightarrow>
                      if colon \<noteq> CHR '':'' then None
                      else
                        (case parse_value n r1 of
                           None \<Rightarrow> None
                         | Some (v, r2) \<Rightarrow>
                             (case skip_ws r2 of
                                [] \<Rightarrow> None
                              | d # r3 \<Rightarrow>
                                  if d = CHR '','' then
                                    map_option (\<lambda>(ms, r4). ((k, v) # ms, r4)) (parse_members n r3)
                                  else if d = CHR ''}'' then Some ([(k, v)], r3)
                                  else None)))))"

text \<open>
  \<^verbatim>\<open>JSON.parse(text)\<close>: one value and nothing but white space after it. A text is
  longer than the number of nested calls its values need.
\<close>

definition json_parse :: "string \<Rightarrow> json option" where
  "json_parse s =
     (case parse_value (Suc (length s)) s of
        None \<Rightarrow> None
      | Some (v, r) \<Rightarrow> if skip_ws r = [] then Some v else None)"


text \<open>
  A value with every constructor, a quotation mark and control characters.
\<close>

definition sample_json :: json where
  "sample_json =
     JObject [(''name'', JString [CHR ''a'', CHR 0x22, CHR ''b'', CHR 0x0A, CHR 0x01]),
       (''tags'', JArray [JNumber (-120), JBool True, JNull, JArray [], JObject [], JNumber 0])]"




section \<open>Basic facts\<close>

declare for_await_push.simps [simp del]
declare drain.simps [simp del]

lemma invoke_eq:
  "invoke t p handler s =
     (fst (handler (world s)),
      s\<lparr>world := snd (handler (world s)),
        requests := requests s @ [\<lparr>tag = t, payload = p, closed_at_send = closed s\<rparr>]\<rparr>)"
  by (simp add: invoke_def split: prod.split)

lemma invoke_scan_eq:
  "invoke_scan chan tid opts receiver acc s =
     ((case snd (fst (on_scan chan tid opts (world s))) of
         None \<Rightarrow> Inr (foldl receiver acc (fst (fst (on_scan chan tid opts (world s)))))
       | Some f \<Rightarrow> Inl f),
      s\<lparr>world := snd (on_scan chan tid opts (world s)),
        requests := requests s @
          [\<lparr>tag = Scan, payload = TxScan tid opts, closed_at_send = closed s\<rparr>]\<rparr>)"
  by (cases "on_scan chan tid opts (world s)") (auto simp: invoke_scan_def split: option.split)

lemma memory_engine_simps:
  "on_open (memory_engine d) t args w = (Inr (next_id w), w\<lparr>next_id := next_id w + 1\<rparr>)"
  "on_get (memory_engine d) tid k w =
     (Inr \<lparr>gr_has = (map_of (store w) k \<noteq> None), gr_value = map_of (store w) k\<rparr>, w)"
  "on_has (memory_engine d) tid k w = (Inr (map_of (store w) k \<noteq> None), w)"
  "on_scan (memory_engine d) tid opts w =
     (((case limit opts of None \<Rightarrow> (\<lambda>es. es) | Some n \<Rightarrow> take (nat n))
         (List.map_filter (\<lambda>(k, e). map_option (Pair (Primary k)) (d e)) (store w)),
       None), w)"
  "on_put (memory_engine d) tid k e w =
     (Inr (), w\<lparr>store := filter (\<lambda>(k', _). k' \<noteq> k) (store w) @ [(k, e)]\<rparr>)"
  "on_del (memory_engine d) tid k w =
     (Inr (map_of (store w) k \<noteq> None), w\<lparr>store := filter (\<lambda>(k', _). k' \<noteq> k) (store w)\<rparr>)"
  "on_createIndex (memory_engine d) tid n kp jp w = (Inr (), w)"
  "on_dropIndex (memory_engine d) tid n w = (Inr (), w)"
  "on_commit (memory_engine d) tid w = (Inr (length (store w)), w)"
  "on_close (memory_engine d) tid w = (Inr (), w)"
  by (simp_all add: memory_engine_def)

lemma sample_open_eq:
  "sample_open =
     \<lparr>transactionId = 1, closed = False, openTransactionName = OpenTransaction,
      world = \<lparr>next_id = 2, store = []\<rparr>,
      requests = [\<lparr>tag = OpenTransaction, payload = OpenArgs (), closed_at_send = False\<rparr>],
      console = []\<rparr>"
  by (simp add: sample_open_def open_tx_def invoke_eq WriteTransactionImpl_def
        ReadTransactionImpl_def memory_engine_simps fresh_engine_def)

lemma sample_closed_eq:
  "sample_closed =
     \<lparr>transactionId = 1, closed = True, openTransactionName = OpenTransaction,
      world = \<lparr>next_id = 2, store = []\<rparr>,
      requests = [\<lparr>tag = OpenTransaction, payload = OpenArgs (), closed_at_send = False\<rparr>,
                  \<lparr>tag = CloseTransaction, payload = TxOnly 1, closed_at_send = True\<rparr>],
      console = []\<rparr>"
  by (simp add: sample_closed_def sample_open_eq close_def invoke_eq memory_engine_simps Let_def)

lemma sample_stored_eq:
  "sample_stored =
     \<lparr>transactionId = 1, closed = False, openTransactionName = OpenTransaction,
      world = \<lparr>next_id = 2, store = [(''a'', ''true''), (''b'', ''false''), (''c'', ''true'')]\<rparr>,
      requests = [\<lparr>tag = OpenTransaction, payload = OpenArgs (), closed_at_send = False\<rparr>],
      console = []\<rparr>"
  by (simp add: sample_stored_def sample_open_eq)

lemma sample_malformed_eq:
  "sample_malformed =
     \<lparr>transactionId = 1, closed = False, openTransactionName = OpenTransaction,
      world = \<lparr>next_id = 2, store = [(''m'', ''{'')]\<rparr>,
      requests = [\<lparr>tag = OpenTransaction, payload = OpenArgs (), closed_at_send = False\<rparr>],
      console = []\<rparr>"
  by (simp add: sample_malformed_def sample_open_eq)

lemma bool_round_trip: "bool_parse (bool_stringify b) = Some b"
  by (simp add: bool_parse_def bool_stringify_def)

lemma outcome_simps:
  "snd (outcome rs) = snd rs"
  "fst (outcome rs) = (case fst rs of Inl e \<Rightarrow> Some e | Inr _ \<Rightarrow> None)"
  by (auto simp: outcome_def split: prod.split sum.split)

subsection \<open>The loop of scanAll and the drain of the specification\<close>

lemma for_await_push_drain:
  "for_await_push chan it result s =
     (case drain chan it s of
        (Inl e, s') \<Rightarrow> (Inl e, s')
      | (Inr pairs, s') \<Rightarrow> (Inr (result @ pairs), s'))"
proof (induction chan it result s rule: for_await_push.induct)
  case (1 chan it result s)
  obtain r it' s' where n: "next_entry chan it s = (r, it', s')"
    by (cases "next_entry chan it s") auto
  show ?case
  proof (cases r)
    case (Inl e)
    with n show ?thesis
      by (subst for_await_push.simps, subst drain.simps) simp
  next
    case (Inr x)
    show ?thesis
    proof (cases x)
      case None
      with n Inr show ?thesis
        by (subst for_await_push.simps, subst drain.simps) simp
    next
      case (Some pair)
      have ih: "for_await_push chan it' (result @ [pair]) s' =
        (case drain chan it' s' of
           (Inl e, s'') \<Rightarrow> (Inl e, s'')
         | (Inr pairs, s'') \<Rightarrow> (Inr ((result @ [pair]) @ pairs), s''))"
        using "1.IH" n Inr Some by simp
      show ?thesis
        by (subst for_await_push.simps, subst drain.simps)
           (simp add: n Inr Some ih split: prod.split sum.split)
    qed
  qed
qed

lemma foldl_snoc: "foldl (\<lambda>items e. items @ [e]) acc es = acc @ es"
  by (induction es arbitrary: acc) auto

lemma drain_Yielding: "\<not> closed s \<Longrightarrow> drain chan (Yielding xs) s = (Inr xs, s)"
proof (induction xs)
  case Nil
  then show ?case
    by (subst drain.simps) (simp add: next_entry_def throwIfClosed_def)
next
  case (Cons x xs)
  then show ?case
    by (subst drain.simps) (simp add: next_entry_def throwIfClosed_def)
qed

lemma drain_Pending:
  assumes "\<not> closed s"
    and "on_scan chan (transactionId s) (toRPC (sr_options sr)) (world s) = ((es, None), w')"
  shows "drain chan (Pending sr) s =
     (Inr es, s\<lparr>world := w', requests := requests s @
        [\<lparr>tag = Scan, payload = TxScan (transactionId s) (toRPC (sr_options sr)),
          closed_at_send = False\<rparr>]\<rparr>)"
proof (cases es)
  case Nil
  with assms show ?thesis
    by (subst drain.simps) (simp add: next_entry_def throwIfClosed_def invoke_scan_eq)
next
  case (Cons x xs)
  with assms show ?thesis
    by (subst drain.simps)
       (simp add: next_entry_def throwIfClosed_def invoke_scan_eq foldl_snoc drain_Yielding)
qed

lemma scanAll_closed: "closed s \<Longrightarrow> scanAll chan opts s = (Inl TransactionClosed, s)"
  by (simp add: scanAll_def scan_def entries_def)
     (subst for_await_push.simps, simp add: next_entry_def throwIfClosed_def)



subsection \<open>One operation and many, on a closed transaction and on the id\<close>

lemma exec_closed_guarded:
  "closed s \<Longrightarrow> \<not> is_lifecycle op \<Longrightarrow> snd (exec P S chan op s) = s"
  by (cases op)
     (simp_all add: outcome_simps get_def has_def isEmpty_def put_def del_def createIndex_def
        dropIndex_def scan_def scanAll_closed throwIfClosed_def)

lemma exec_closed_error:
  "closed s \<Longrightarrow> \<not> is_lifecycle op \<Longrightarrow> \<not> is_scan op \<Longrightarrow>
     fst (exec P S chan op s) = Some TransactionClosed"
  by (cases op)
     (simp_all add: outcome_simps get_def has_def isEmpty_def put_def del_def createIndex_def
        dropIndex_def scanAll_closed throwIfClosed_def)

lemma exec_lifecycle_requests:
  "is_lifecycle op \<Longrightarrow>
     length (requests (snd (exec P S chan op s))) = Suc (length (requests s))"
  by (cases op)
     (simp_all add: outcome_simps open_tx_def close_def WriteTransactionImpl_commit_def
        IndexTransactionImpl_commit_def invoke_eq Let_def split: sum.split)

lemma exec_lifecycle_closed:
  "closed s \<Longrightarrow> is_lifecycle op \<Longrightarrow> closed (snd (exec P S chan op s))"
  by (cases op)
     (simp_all add: outcome_simps open_tx_def close_def WriteTransactionImpl_commit_def
        IndexTransactionImpl_commit_def invoke_eq Let_def split: sum.split)

lemma exec_keeps_closed: "closed s \<Longrightarrow> closed (snd (exec P S chan op s))"
  by (cases "is_lifecycle op") (simp_all add: exec_lifecycle_closed exec_closed_guarded)

lemma run_keeps_closed: "closed s \<Longrightarrow> closed (run P S chan ops s)"
  by (induction ops arbitrary: s) (simp_all add: exec_keeps_closed)



subsection \<open>The JSON round trip\<close>

declare digits.simps [simp del]


































lemma duplicate_key_not_round_trip:
  "json_parse (json_stringify (JObject [(''a'', JNull), (''a'', JBool True)]))
     = Some (JObject [(''a'', JBool True)])"
  by (simp add: json_parse_def quote_def escape_char_def skip_ws_def is_ws_def set_member_def
        keyword_def)

lemma sample_json_text:
  "json_stringify sample_json =
     [CHR ''{'', CHR 0x22, CHR ''n'', CHR ''a'', CHR ''m'', CHR ''e'', CHR 0x22,
      CHR '':'', CHR 0x22, CHR ''a'', CHR 0x5C, CHR 0x22, CHR ''b'', CHR 0x5C,
      CHR ''n'', CHR 0x5C, CHR ''u'', CHR ''0'', CHR ''0'', CHR ''0'',
      CHR ''1'', CHR 0x22, CHR '','', CHR 0x22, CHR ''t'', CHR ''a'', CHR ''g'',
      CHR ''s'', CHR 0x22, CHR '':'', CHR ''['', CHR ''-'', CHR ''1'',
      CHR ''2'', CHR ''0'', CHR '','', CHR ''t'', CHR ''r'', CHR ''u'',
      CHR ''e'', CHR '','', CHR ''n'', CHR ''u'', CHR ''l'', CHR ''l'',
      CHR '','', CHR ''['', CHR '']'', CHR '','', CHR ''{'', CHR ''}'',
      CHR '','', CHR ''0'', CHR '']'', CHR ''}'']"
  by code_simp

lemma json_parse_examples:
  "json_parse ''[1, 2 ,[ ] ]'' = Some (JArray [JNumber 1, JNumber 2, JArray []])"
  "json_parse ''01'' = None"
  "json_parse ''[1,]'' = None"
  "json_parse ''nul'' = None"
  by code_simp+

subsection \<open>A put followed by a get\<close>



section \<open>The guard of the read, write and index operations\<close>

text \<open>
  Claim C1. On a transaction whose closed flag is true (as it is after \<^verbatim>\<open>close\<close> and
  after \<^verbatim>\<open>commit\<close>), each of \<^verbatim>\<open>get\<close>, \<^verbatim>\<open>has\<close>, \<^verbatim>\<open>isEmpty\<close>, \<^verbatim>\<open>put\<close>,
  \<^verbatim>\<open>del\<close>, \<^verbatim>\<open>createIndex\<close> and \<^verbatim>\<open>dropIndex\<close> fails with the transaction-closed
  error at its first step: the state after the call is the state before it, so nothing
  was handed to the channel and nothing behind the channel has moved.
\<close>

theorem closed_transaction_rejects:
  "closed s \<Longrightarrow>
     get JSON_parse chan k s = (Inl TransactionClosed, s) \<and>
     has chan k s = (Inl TransactionClosed, s) \<and>
     isEmpty chan s = (Inl TransactionClosed, s) \<and>
     put JSON_stringify chan k v s = (Inl TransactionClosed, s) \<and>
     del chan k s = (Inl TransactionClosed, s) \<and>
     createIndex chan d s = (Inl TransactionClosed, s) \<and>
     dropIndex chan n s = (Inl TransactionClosed, s)"
  by (simp add: get_def has_def isEmpty_def put_def del_def createIndex_def dropIndex_def
        throwIfClosed_def)

theorem closed_transaction_rejects_witness:
  "closed sample_closed \<and>
   get bool_parse (memory_engine bool_parse) ''k'' sample_closed
     = (Inl TransactionClosed, sample_closed) \<and>
   has (memory_engine bool_parse) ''k'' sample_closed = (Inl TransactionClosed, sample_closed) \<and>
   isEmpty (memory_engine bool_parse) sample_closed = (Inl TransactionClosed, sample_closed) \<and>
   put bool_stringify (memory_engine bool_parse) ''k'' True sample_closed
     = (Inl TransactionClosed, sample_closed) \<and>
   del (memory_engine bool_parse) ''k'' sample_closed = (Inl TransactionClosed, sample_closed) \<and>
   createIndex (memory_engine bool_parse)
       \<lparr>name = ''n'', keyPrefix = None, jsonPointer = ''/age''\<rparr> sample_closed
     = (Inl TransactionClosed, sample_closed) \<and>
   dropIndex (memory_engine bool_parse) ''n'' sample_closed
     = (Inl TransactionClosed, sample_closed)"
proof -
  have c: "closed sample_closed"
    by (simp add: sample_closed_eq)
  show ?thesis
    using c closed_transaction_rejects [OF c, of bool_parse "memory_engine bool_parse" "''k''"
        bool_stringify True "\<lparr>name = ''n'', keyPrefix = None, jsonPointer = ''/age''\<rparr>" "''n''"]
    by simp
qed

section \<open>Closing and committing\<close>

text \<open>
  Claim C2. \<^verbatim>\<open>close\<close> never fails: whatever the channel answers, the call returns
  normally and the closed flag is true afterwards. The flag was already true when the
  close-transaction request, carrying the current id, was handed to the channel. A
  failure of the channel is printed as a diagnostic and nothing else happens to it.
\<close>

theorem close_never_raises:
  "fst (close chan s) = Inr () \<and>
   closed (snd (close chan s)) \<and>
   requests (snd (close chan s)) =
     requests s @
       [\<lparr>tag = CloseTransaction, payload = TxOnly (transactionId s), closed_at_send = True\<rparr>] \<and>
   console (snd (close chan s)) =
     console s @
       (case fst (on_close chan (transactionId s) (world s)) of
          Inl ex \<Rightarrow> [(''Failed to close transaction'', ex)]
        | Inr _ \<Rightarrow> [])"
  by (simp add: close_def invoke_eq Let_def split: sum.split)

text \<open>The same on the channel whose every call fails.\<close>

lemma close_on_failing_engine:
  "close failing_engine (WriteTransactionImpl () :: (unit, unit) state) =
     (Inr (),
      \<lparr>transactionId = - 1, closed = True, openTransactionName = OpenTransaction, world = (),
       requests = [\<lparr>tag = CloseTransaction, payload = TxOnly (- 1), closed_at_send = True\<rparr>],
       console = [(''Failed to close transaction'', ''offline'')]\<rparr>)"
  by (simp add: close_def invoke_eq Let_def failing_engine_def WriteTransactionImpl_def
        ReadTransactionImpl_def)

text \<open>
  Claim C4. \<^verbatim>\<open>commit\<close>, of a write transaction and of an index transaction alike,
  sets the closed flag and then hands one commit-transaction request with the current
  id to the channel; what the channel answers is what the caller gets, the commit
  response as it is and a failure as the failure it is.
\<close>

theorem commit_closes_then_sends:
  "closed (snd (WriteTransactionImpl_commit chan s)) \<and>
   requests (snd (WriteTransactionImpl_commit chan s)) =
     requests s @
       [\<lparr>tag = CommitTransaction, payload = TxOnly (transactionId s), closed_at_send = True\<rparr>] \<and>
   fst (WriteTransactionImpl_commit chan s) =
     (case fst (on_commit chan (transactionId s) (world s)) of
        Inl f \<Rightarrow> Inl (ChannelFailure f)
      | Inr response \<Rightarrow> Inr response) \<and>
   closed (snd (IndexTransactionImpl_commit chan s)) \<and>
   requests (snd (IndexTransactionImpl_commit chan s)) =
     requests s @
       [\<lparr>tag = CommitTransaction, payload = TxOnly (transactionId s), closed_at_send = True\<rparr>] \<and>
   fst (IndexTransactionImpl_commit chan s) =
     (case fst (on_commit chan (transactionId s) (world s)) of
        Inl f \<Rightarrow> Inl (ChannelFailure f)
      | Inr response \<Rightarrow> Inr response)"
  by (simp add: WriteTransactionImpl_commit_def IndexTransactionImpl_commit_def invoke_eq Let_def
        split: sum.split)

section \<open>The life cycle: the closed flag and the id\<close>

text \<open>
  The claim C3 as it is written fails: \<^verbatim>\<open>commit\<close> and \<^verbatim>\<open>open\<close> do not call
  \<^verbatim>\<open>throwIfClosed\<close>, and \<^verbatim>\<open>scan\<close> only builds its result. On the sample
  transaction that has been closed, \<^verbatim>\<open>commit\<close> hands a commit-transaction request to
  the channel and returns the engine's answer, \<^verbatim>\<open>open\<close> hands an open-transaction
  request to the channel and stores the new id, and \<^verbatim>\<open>scan\<close> returns normally.
\<close>

theorem commit_after_close_counterexample:
  "closed sample_closed \<and>
   WriteTransactionImpl_commit (memory_engine bool_parse) sample_closed =
     (Inr 0,
      sample_closed\<lparr>requests := requests sample_closed @
        [\<lparr>tag = CommitTransaction, payload = TxOnly 1, closed_at_send = True\<rparr>]\<rparr>) \<and>
   open_tx (memory_engine bool_parse) () sample_closed =
     (Inr (),
      sample_closed\<lparr>transactionId := 2, world := \<lparr>next_id = 3, store = []\<rparr>,
        requests := requests sample_closed @
          [\<lparr>tag = OpenTransaction, payload = OpenArgs (), closed_at_send = True\<rparr>]\<rparr>) \<and>
   scan None sample_closed = (Inr (ScanResult None False), sample_closed)"
  by (simp add: sample_closed_eq WriteTransactionImpl_commit_def open_tx_def scan_def invoke_eq
        Let_def memory_engine_simps)

text \<open>
  Claim C3, amended. Once the closed flag is true it stays true under every further
  sequence of operations. On a closed transaction every operation outside the life cycle
  (\<^verbatim>\<open>get\<close>, \<^verbatim>\<open>has\<close>, \<^verbatim>\<open>isEmpty\<close>, \<^verbatim>\<open>scan\<close>, \<^verbatim>\<open>scanAll\<close>, \<^verbatim>\<open>put\<close>, \<^verbatim>\<open>del\<close>,
  \<^verbatim>\<open>createIndex\<close>, \<^verbatim>\<open>dropIndex\<close>) leaves the state as it is, so it sends nothing, and
  all of them but \<^verbatim>\<open>scan\<close>, which only builds the lazy sequence, fail with the
  transaction-closed error. The operations of the life cycle (\<^verbatim>\<open>open\<close>, \<^verbatim>\<open>close\<close>,
  \<^verbatim>\<open>commit\<close>) are not guarded: each still hands its one request to the channel.
\<close>

theorem closed_is_permanent:
  "closed s \<Longrightarrow>
     closed (run JSON_parse JSON_stringify chan ops s) \<and>
     (\<not> is_lifecycle op \<longrightarrow> snd (exec JSON_parse JSON_stringify chan op s) = s) \<and>
     (\<not> is_lifecycle op \<and> \<not> is_scan op \<longrightarrow>
        fst (exec JSON_parse JSON_stringify chan op s) = Some TransactionClosed) \<and>
     (is_lifecycle op \<longrightarrow>
        length (requests (snd (exec JSON_parse JSON_stringify chan op s)))
          = Suc (length (requests s)))"
  by (simp add: run_keeps_closed exec_closed_guarded exec_closed_error exec_lifecycle_requests)

theorem closed_is_permanent_witness:
  "closed sample_closed \<and>
   closed (run bool_parse bool_stringify (memory_engine bool_parse)
             [OpGet ''k'', OpOpen (), OpPut ''k'' True, OpCommit, OpScanAll None, OpClose]
             sample_closed) \<and>
   snd (exec bool_parse bool_stringify (memory_engine bool_parse) (OpPut ''k'' True) sample_closed)
     = sample_closed \<and>
   snd (exec bool_parse bool_stringify (memory_engine bool_parse) (OpScan None) sample_closed)
     = sample_closed \<and>
   fst (exec bool_parse bool_stringify (memory_engine bool_parse) (OpPut ''k'' True) sample_closed)
     = Some TransactionClosed \<and>
   length (requests
     (snd (exec bool_parse bool_stringify (memory_engine bool_parse) OpCommit sample_closed))) = 3"
proof -
  have c: "closed sample_closed"
    by (simp add: sample_closed_eq)
  have n: "length (requests sample_closed) = 2"
    by (simp add: sample_closed_eq)
  show ?thesis
    using c n
      closed_is_permanent [OF c, of bool_parse bool_stringify "memory_engine bool_parse"
        "[OpGet ''k'', OpOpen (), OpPut ''k'' True, OpCommit, OpScanAll None, OpClose]"
        "OpPut ''k'' True"]
      closed_is_permanent [OF c, of bool_parse bool_stringify "memory_engine bool_parse"
        "[]" "OpScan None"]
      closed_is_permanent [OF c, of bool_parse bool_stringify "memory_engine bool_parse"
        "[]" "OpCommit"]
    by simp
qed




section \<open>Reading\<close>

text \<open>
  Claim C6. On a transaction that is not closed, \<^verbatim>\<open>get(key)\<close> hands exactly one get
  request, with the current id and the key, to the channel. When the engine reports the
  key absent the call returns no value, which is a normal return. When the engine
  reports it present the call returns the decoded value, and fails with a decode
  failure when the text does not decode.
\<close>

theorem get_decodes:
  "\<not> closed s \<Longrightarrow>
     requests (snd (get JSON_parse chan k s)) =
       requests s @ [\<lparr>tag = Get, payload = TxKey (transactionId s) k, closed_at_send = False\<rparr>] \<and>
     (\<forall>r w'. on_get chan (transactionId s) k (world s) = (Inr r, w') \<and> \<not> gr_has r \<longrightarrow>
        fst (get JSON_parse chan k s) = Inr None) \<and>
     (\<forall>r w' e. on_get chan (transactionId s) k (world s) = (Inr r, w') \<and> gr_has r \<and>
          gr_value r = Some e \<longrightarrow>
        fst (get JSON_parse chan k s) =
          (case JSON_parse e of Some v \<Rightarrow> Inr (Some v) | None \<Rightarrow> Inl DecodeFailure))"
  by (auto simp: get_def throwIfClosed_def invoke_eq split: sum.splits option.splits)

theorem get_decodes_witness:
  "\<not> closed sample_stored \<and> \<not> closed sample_malformed \<and>
   requests (snd (get bool_parse (memory_engine bool_parse) ''a'' sample_stored)) =
     requests sample_stored @ [\<lparr>tag = Get, payload = TxKey 1 ''a'', closed_at_send = False\<rparr>] \<and>
   fst (get bool_parse (memory_engine bool_parse) ''z'' sample_stored) = Inr None \<and>
   fst (get bool_parse (memory_engine bool_parse) ''a'' sample_stored) = Inr (Some True) \<and>
   fst (get bool_parse (memory_engine bool_parse) ''m'' sample_malformed) = Inl DecodeFailure"
proof -
  have c: "\<not> closed sample_stored"
    by (simp add: sample_stored_eq)
  have c': "\<not> closed sample_malformed"
    by (simp add: sample_malformed_eq)
  show ?thesis
    using c c'
      get_decodes [OF c, of bool_parse "memory_engine bool_parse" "''a''"]
      get_decodes [OF c, of bool_parse "memory_engine bool_parse" "''z''"]
      get_decodes [OF c', of bool_parse "memory_engine bool_parse" "''m''"]
    by (simp add: sample_stored_eq sample_malformed_eq memory_engine_simps bool_parse_def)
qed



text \<open>
  Claim C8. On a transaction that is not closed, \<^verbatim>\<open>isEmpty()\<close> hands exactly one
  request to the channel, a scan with the current id, limit 1 and no index name. When
  the scan completes, the call returns true exactly when no entry was delivered to the
  receiver; when the scan fails, the failure propagates.
\<close>

theorem isEmpty_is_scan_limit_1:
  "\<not> closed s \<Longrightarrow>
     requests (snd (isEmpty chan s)) =
       requests s @
         [\<lparr>tag = Scan,
           payload = TxScan (transactionId s)
             \<lparr>indexName = None, prefix = None, start = None, limit = Some 1\<rparr>,
           closed_at_send = False\<rparr>] \<and>
     (\<forall>es w'. on_scan chan (transactionId s)
                 \<lparr>indexName = None, prefix = None, start = None, limit = Some 1\<rparr> (world s)
               = ((es, None), w') \<longrightarrow>
        fst (isEmpty chan s) = Inr (es = [])) \<and>
     (\<forall>es f w'. on_scan chan (transactionId s)
                 \<lparr>indexName = None, prefix = None, start = None, limit = Some 1\<rparr> (world s)
               = ((es, Some f), w') \<longrightarrow>
        fst (isEmpty chan s) = Inl (ChannelFailure f))"
proof -
  have fold_false: "foldl (\<lambda>empty' _. False) b es = (b \<and> es = [])"
    for b and es :: "(key \<times> 'd) list"
    by (induction es arbitrary: b) auto
  assume "\<not> closed s"
  then show ?thesis
    by (auto simp: isEmpty_def throwIfClosed_def invoke_scan_eq fold_false split: option.splits)
qed

theorem isEmpty_is_scan_limit_1_witness:
  "\<not> closed sample_open \<and>
   fst (isEmpty (memory_engine bool_parse) sample_open) = Inr True \<and>
   requests (snd (isEmpty (memory_engine bool_parse) sample_open)) =
     requests sample_open @
       [\<lparr>tag = Scan,
         payload = TxScan 1 \<lparr>indexName = None, prefix = None, start = None, limit = Some 1\<rparr>,
         closed_at_send = False\<rparr>] \<and>
   fst (isEmpty (memory_engine bool_parse)
          (snd (put bool_stringify (memory_engine bool_parse) ''k'' False sample_open))) = Inr False"
proof -
  let ?s = "snd (put bool_stringify (memory_engine bool_parse) ''k'' False sample_open)"
  have c: "\<not> closed sample_open"
    by (simp add: sample_open_eq)
  have s: "?s = sample_open
      \<lparr>world := \<lparr>next_id = 2, store = [(''k'', ''false'')]\<rparr>,
       requests := requests sample_open @
         [\<lparr>tag = Put, payload = TxPut 1 ''k'' ''false'', closed_at_send = False\<rparr>]\<rparr>"
    by (simp add: put_def throwIfClosed_def invoke_eq sample_open_eq memory_engine_simps
          bool_stringify_def)
  have c': "\<not> closed ?s"
    unfolding s by (simp add: sample_open_eq)
  show ?thesis
    using c isEmpty_is_scan_limit_1 [OF c, of "memory_engine bool_parse"]
      isEmpty_is_scan_limit_1 [OF c', of "memory_engine bool_parse"]
    unfolding s
    by (simp add: sample_open_eq memory_engine_simps List.map_filter_simps bool_parse_def)
qed

section \<open>Scanning\<close>

text \<open>
  Claim C9. \<^verbatim>\<open>scanAll(options)\<close> is scan-then-drain: the loop of the source computes
  what draining the entries view of \<^verbatim>\<open>scan(options)\<close> computes, result and state.
  On a transaction that is not closed whose one scan request completes, the result is
  the list of the delivered pairs in the order of delivery.
\<close>

theorem scanAll_is_scan_then_drain:
  "scanAll chan opts s = scanAll_spec chan opts s \<and>
   (\<not> closed s \<longrightarrow>
     (\<forall>es w'. on_scan chan (transactionId s) (toRPC opts) (world s) = ((es, None), w') \<longrightarrow>
        scanAll chan opts s =
          (Inr es, s\<lparr>world := w', requests := requests s @
             [\<lparr>tag = Scan, payload = TxScan (transactionId s) (toRPC opts),
               closed_at_send = False\<rparr>]\<rparr>)))"
proof -
  have eq: "scanAll chan opts s = scanAll_spec chan opts s"
    by (simp add: scanAll_def scanAll_spec_def scan_def for_await_push_drain
          split: prod.split sum.split)
  have "scanAll_spec chan opts s =
          (Inr es, s\<lparr>world := w', requests := requests s @
             [\<lparr>tag = Scan, payload = TxScan (transactionId s) (toRPC opts),
               closed_at_send = False\<rparr>]\<rparr>)"
    if "\<not> closed s" "on_scan chan (transactionId s) (toRPC opts) (world s) = ((es, None), w')"
    for es w'
    using that drain_Pending [of s chan "ScanResult opts False" es w']
    by (simp add: scanAll_spec_def scan_def entries_def ScanResult_def)
  with eq show ?thesis by simp
qed

theorem scanAll_is_scan_then_drain_witness:
  "\<not> closed sample_stored \<and>
   scanAll (memory_engine bool_parse) None sample_stored =
     (Inr [(Primary ''a'', True), (Primary ''b'', False), (Primary ''c'', True)],
      sample_stored\<lparr>requests := requests sample_stored @
        [\<lparr>tag = Scan,
          payload = TxScan 1 \<lparr>indexName = None, prefix = None, start = None, limit = None\<rparr>,
          closed_at_send = False\<rparr>]\<rparr>) \<and>
   scanAll_spec (memory_engine bool_parse) None sample_stored =
     scanAll (memory_engine bool_parse) None sample_stored"
proof -
  note th = scanAll_is_scan_then_drain [of "memory_engine bool_parse" None sample_stored]
  have c: "\<not> closed sample_stored"
    by (simp add: sample_stored_eq)
  have e: "on_scan (memory_engine bool_parse) (transactionId sample_stored) (toRPC None)
             (world sample_stored)
           = (([(Primary ''a'', True), (Primary ''b'', False), (Primary ''c'', True)], None),
              world sample_stored)"
    by (simp add: sample_stored_eq memory_engine_simps toRPC_def List.map_filter_simps
          bool_parse_def)
  have r: "scanAll (memory_engine bool_parse) None sample_stored =
     (Inr [(Primary ''a'', True), (Primary ''b'', False), (Primary ''c'', True)],
      sample_stored\<lparr>world := world sample_stored,
        requests := requests sample_stored @
          [\<lparr>tag = Scan, payload = TxScan (transactionId sample_stored) (toRPC None),
            closed_at_send = False\<rparr>]\<rparr>)"
    using th c e by blast
  have q: "scanAll_spec (memory_engine bool_parse) None sample_stored =
     scanAll (memory_engine bool_parse) None sample_stored"
    using th by simp
  show ?thesis
    using c q unfolding r by (simp add: sample_stored_eq toRPC_def)
qed

text \<open>
  Claim C10. On a transaction whose closed flag is true, \<^verbatim>\<open>scan(options)\<close> returns a
  \<^verbatim>\<open>ScanResult\<close> and leaves the state as it is: no transaction-closed error and no
  request at the call. The error comes when the returned sequence is consumed: the first
  advancement of its entries view fails with the transaction-closed error, still without
  a request.
\<close>

theorem scan_is_lazy:
  "closed s \<Longrightarrow>
     scan opts s = (Inr (ScanResult opts False), s) \<and>
     next_entry chan (entries (ScanResult opts False)) s = (Inl TransactionClosed, Exhausted, s)"
  by (simp add: scan_def entries_def next_entry_def throwIfClosed_def)

theorem scan_is_lazy_witness:
  "closed sample_closed \<and>
   scan None sample_closed = (Inr (ScanResult None False), sample_closed) \<and>
   next_entry (memory_engine bool_parse) (entries (ScanResult None False)) sample_closed
     = (Inl TransactionClosed, Exhausted, sample_closed)"
proof -
  have c: "closed sample_closed"
    by (simp add: sample_closed_eq)
  show ?thesis
    using c scan_is_lazy [OF c, of None "memory_engine bool_parse"] by simp
qed

end
